theory Spec2Isabelle
  imports Main "HOL-Library.Word"
begin

section \<open>The light-transition detector of script.js\<close>

text \<open>
  The detector is the function \<^verbatim>\<open>detectLightLevel\<close> of \<^verbatim>\<open>script.js\<close> together with the
  module-level variables it reads and writes. The variables become one record; the
  function takes the record, the pixel read from the canvas and the value of
  \<^verbatim>\<open>Date.now()\<close>, and returns the sounds it played, in order, with the updated record.
  All numbers of the script are integers far below \<open>2^53\<close>, so they are \<open>int\<close>.
\<close>

subsection \<open>State\<close>

text \<open>
  A call of \<^verbatim>\<open>playChestOpenSound()\<close> is the event \<open>OpenedEvent\<close>, a call of
  \<^verbatim>\<open>playChestCloseSound()\<close> is the event \<open>ClosedEvent\<close>.
\<close>

datatype event = OpenedEvent | ClosedEvent

text \<open>
  The variables of the script: \<^verbatim>\<open>isActive\<close>, \<^verbatim>\<open>camera.videoWidth\<close>, the number shown in
  \<^verbatim>\<open>lightLevelDisplay.textContent\<close> (\<open>None\<close> before the script has written it),
  \<^verbatim>\<open>sensitivity\<close>, \<^verbatim>\<open>isChestOpen\<close>, \<^verbatim>\<open>previousLightLevel\<close> and \<^verbatim>\<open>lastTriggerTime\<close>.
\<close>

record globals =
  isActive :: bool
  videoWidth :: nat
  lightLevelDisplay :: "int option"
  sensitivity :: int
  isChestOpen :: bool
  previousLightLevel :: int
  lastTriggerTime :: int

text \<open>\<^verbatim>\<open>const triggerCooldown = 2000;\<close>\<close>

definition triggerCooldown :: int where
  "triggerCooldown = 2000"

text \<open>
  The values the variables are declared with (\<^verbatim>\<open>sensitivity = 10\<close>,
  \<^verbatim>\<open>isChestOpen = false\<close>, \<^verbatim>\<open>previousLightLevel = 0\<close>, \<^verbatim>\<open>lastTriggerTime = 0\<close>,
  \<^verbatim>\<open>isActive = false\<close>); no stream is attached to the camera yet.
\<close>

definition initial_globals :: globals where
  "initial_globals =
     \<lparr>isActive = False, videoWidth = 0, lightLevelDisplay = None, sensitivity = 10,
      isChestOpen = False, previousLightLevel = 0, lastTriggerTime = 0\<rparr>"

subsection \<open>The observe step\<close>

text \<open>
  The part of \<^verbatim>\<open>detectLightLevel\<close> from the cooldown check to its end, on a brightness
  already computed:
  \<^verbatim>\<open>
    const currentTime = Date.now();
    if (currentTime - lastTriggerTime < triggerCooldown) { return; }
    const lightDifference = brightness - previousLightLevel;
    if (lightDifference > sensitivity && !isChestOpen) {
        playChestOpenSound(); isChestOpen = true; lastTriggerTime = currentTime;
    } else if (lightDifference < -sensitivity && isChestOpen) {
        playChestCloseSound(); isChestOpen = false; lastTriggerTime = currentTime;
    }
    if (currentTime - lastTriggerTime >= triggerCooldown) { previousLightLevel = brightness; }
  \<close>
  The second test of the cooldown reads the \<^verbatim>\<open>lastTriggerTime\<close> that a trigger of this
  same call has just written.
\<close>

definition observe :: "globals \<Rightarrow> int \<Rightarrow> int \<Rightarrow> event list \<times> globals" where
  "observe g brightness currentTime =
     (if currentTime - lastTriggerTime g < triggerCooldown then ([], g)
      else
        let lightDifference = brightness - previousLightLevel g;
            (played, g1) =
              (if lightDifference > sensitivity g \<and> \<not> isChestOpen g then
                 ([OpenedEvent], g\<lparr>isChestOpen := True, lastTriggerTime := currentTime\<rparr>)
               else if lightDifference < - sensitivity g \<and> isChestOpen g then
                 ([ClosedEvent], g\<lparr>isChestOpen := False, lastTriggerTime := currentTime\<rparr>)
               else ([], g))
        in if currentTime - lastTriggerTime g1 \<ge> triggerCooldown
           then (played, g1\<lparr>previousLightLevel := brightness\<rparr>)
           else (played, g1))"

subsection \<open>The whole function\<close>

text \<open>
  \<^verbatim>\<open>Math.round((pixelData[0] + pixelData[1] + pixelData[2]) / 3)\<close> on the bytes of a
  \<^verbatim>\<open>Uint8ClampedArray\<close>: \<^verbatim>\<open>Math.round\<close> rounds a half upwards, that is
  \<open>\<lfloor>s / 3 + 1 / 2\<rfloor> = \<lfloor>(2 s + 3) / 6\<rfloor>\<close>.
\<close>

definition brightness_of :: "8 word \<Rightarrow> 8 word \<Rightarrow> 8 word \<Rightarrow> int" where
  "brightness_of r g b = (2 * (uint r + uint g + uint b) + 3) div 6"


text \<open>
  \<^verbatim>\<open>setInterval(detectLightLevel, 200)\<close>: the step is run once per tick, on the sample and
  the clock value of that tick; the events of all the ticks are collected in order.
\<close>

fun observe_ticks :: "globals \<Rightarrow> (int \<times> int) list \<Rightarrow> event list \<times> globals" where
  "observe_ticks g [] = ([], g)"
| "observe_ticks g ((sample, now) # rest) =
     (let (played, g1) = observe g sample now;
          (later, g2) = observe_ticks g1 rest
      in (played @ later, g2))"

subsection \<open>Starting the detector\<close>



subsection \<open>A canvas read that throws\<close>



subsection \<open>The earlier revision without a cooldown\<close>

text \<open>
  One of the revisions of the script kept with the sources has neither \<^verbatim>\<open>lastTriggerTime\<close>
  nor \<^verbatim>\<open>triggerCooldown\<close>: its \<^verbatim>\<open>detectLightLevel\<close> compares, triggers and then always
  stores the brightness:
  \<^verbatim>\<open>
    const lightDifference = brightness - previousLightLevel;
    if (lightDifference > sensitivity && !isChestOpen) {
        playChestOpenSound(); isChestOpen = true;
    } else if (lightDifference < -sensitivity && isChestOpen) {
        playChestCloseSound(); isChestOpen = false;
    }
    previousLightLevel = brightness;
  \<close>
  The two later revisions wrap the body of the function modelled above in
  \<^verbatim>\<open>try { ... } catch (e) { }\<close> and leave the lines of the step as they are.
\<close>

definition observe_without_cooldown :: "globals \<Rightarrow> int \<Rightarrow> event list \<times> globals" where
  "observe_without_cooldown g brightness =
     (let lightDifference = brightness - previousLightLevel g;
          (played, g1) =
            (if lightDifference > sensitivity g \<and> \<not> isChestOpen g then
               ([OpenedEvent], g\<lparr>isChestOpen := True\<rparr>)
             else if lightDifference < - sensitivity g \<and> isChestOpen g then
               ([ClosedEvent], g\<lparr>isChestOpen := False\<rparr>)
             else ([], g))
      in (played, g1\<lparr>previousLightLevel := brightness\<rparr>))"

subsection \<open>The algorithm as the specification words it\<close>

text \<open>
  The specification's detector state: \<open>previousLevel\<close>, \<open>isOpen\<close>, \<open>lastTriggerTime\<close>,
  \<open>sensitivity\<close>, and the fixed \<open>cooldownDuration\<close> of 2000 ms. Two field names carry a
  suffix, since the script's variables have the same names.
\<close>

record DetectorState =
  previousLevel :: int
  isOpen :: bool
  lastTriggerTime_spec :: int
  sensitivity_spec :: int

definition cooldownDuration :: int where
  "cooldownDuration = 2000"

text \<open>
  The contract \<open>observe(sample, now) -> Option<Event>\<close> in the specification's six steps:
  (1) inside the cooldown window skip the evaluation and return no event; (2) compute
  \<open>delta = sample - previousLevel\<close>; (3) if \<open>delta > sensitivity\<close> and not \<open>isOpen\<close>, emit
  \<open>OpenedEvent\<close>, set \<open>isOpen\<close> and \<open>lastTriggerTime = now\<close>; (4) else if
  \<open>delta < -sensitivity\<close> and \<open>isOpen\<close>, emit \<open>ClosedEvent\<close>, clear \<open>isOpen\<close> and set
  \<open>lastTriggerTime = now\<close>; (5) else emit nothing; (6) after steps 1 to 5, if
  \<open>now - lastTriggerTime >= cooldownDuration\<close>, set \<open>previousLevel = sample\<close>.
\<close>

definition observe_spec :: "DetectorState \<Rightarrow> int \<Rightarrow> int \<Rightarrow> event option \<times> DetectorState" where
  "observe_spec d sample now =
     (let (emitted, d1) =
            (if now - lastTriggerTime_spec d < cooldownDuration then (None, d)
             else
               let delta = sample - previousLevel d
               in if delta > sensitivity_spec d \<and> \<not> isOpen d then
                    (Some OpenedEvent, d\<lparr>isOpen := True, lastTriggerTime_spec := now\<rparr>)
                  else if delta < - sensitivity_spec d \<and> isOpen d then
                    (Some ClosedEvent, d\<lparr>isOpen := False, lastTriggerTime_spec := now\<rparr>)
                  else (None, d))
      in (emitted,
          if now - lastTriggerTime_spec d1 \<ge> cooldownDuration
          then d1\<lparr>previousLevel := sample\<rparr> else d1))"

text \<open>The detector state held in the script's variables.\<close>

definition detector_of :: "globals \<Rightarrow> DetectorState" where
  "detector_of g =
     \<lparr>previousLevel = previousLightLevel g, isOpen = isChestOpen g,
      lastTriggerTime_spec = lastTriggerTime g, sensitivity_spec = sensitivity g\<rparr>"

text \<open>An optional event as the list of sounds played.\<close>

definition events_of :: "event option \<Rightarrow> event list" where
  "events_of emitted = (case emitted of None \<Rightarrow> [] | Some e \<Rightarrow> [e])"

subsection \<open>Alternating event sequences\<close>

text \<open>
  \<open>alternates opn es\<close>: the events \<open>es\<close> are what a chest that is open (\<open>opn\<close>) or closed
  can emit in turn: a closing when open, an opening when closed, and so on.
\<close>

fun alternates :: "bool \<Rightarrow> event list \<Rightarrow> bool" where
  "alternates opn [] = True"
| "alternates opn (e # es) =
     (e = (if opn then ClosedEvent else OpenedEvent) \<and> alternates (\<not> opn) es)"

section \<open>Properties\<close>

subsection \<open>Helper facts\<close>

lemma brightness_of_range: "0 \<le> brightness_of r g b \<and> brightness_of r g b \<le> 255"
proof -
  have "uint r < 256" "uint g < 256" "uint b < 256"
    using uint_bounded [of r] uint_bounded [of g] uint_bounded [of b] by simp_all
  moreover have "0 \<le> uint r" "0 \<le> uint g" "0 \<le> uint b" by simp_all
  ultimately show ?thesis unfolding brightness_of_def by presburger
qed


text \<open>
  Once the cooldown has elapsed, the step plays the sounds and sets \<open>isChestOpen\<close> as the
  revision without a cooldown does.
\<close>

lemma observe_outside_cooldown:
  "triggerCooldown \<le> now - lastTriggerTime g \<Longrightarrow>
   fst (observe g sample now) = fst (observe_without_cooldown g sample) \<and>
   isChestOpen (snd (observe g sample now)) =
     isChestOpen (snd (observe_without_cooldown g sample))"
  by (simp add: observe_def observe_without_cooldown_def Let_def)

text \<open>A step either plays nothing and keeps \<open>isChestOpen\<close>, or plays the one sound
  that the value of \<open>isChestOpen\<close> allows and flips it.\<close>

lemma observe_cases:
  "(fst (observe g sample now) = [] \<and>
    isChestOpen (snd (observe g sample now)) = isChestOpen g) \<or>
   (fst (observe g sample now) = [if isChestOpen g then ClosedEvent else OpenedEvent] \<and>
    isChestOpen (snd (observe g sample now)) = (\<not> isChestOpen g))"
  by (simp add: observe_def Let_def)

lemma observe_ticks_alternates:
  "alternates (isChestOpen g) (fst (observe_ticks g ticks))"
proof (induction ticks arbitrary: g)
  case Nil
  show ?case by simp
next
  case (Cons tick ticks)
  obtain sample now where tick: "tick = (sample, now)"
    by (cases tick)
  obtain played g1 where step: "observe g sample now = (played, g1)"
    by (cases "observe g sample now")
  have rest: "alternates (isChestOpen g1) (fst (observe_ticks g1 ticks))"
    by (rule Cons.IH)
  from observe_cases [of g sample now] step
  consider "played = []" "isChestOpen g1 = isChestOpen g"
    | "played = [if isChestOpen g then ClosedEvent else OpenedEvent]"
      "isChestOpen g1 = (\<not> isChestOpen g)"
    by auto
  then show ?case
  proof cases
    case 1
    with rest tick step show ?thesis by (simp add: case_prod_beta)
  next
    case 2
    with rest tick step show ?thesis by (simp add: case_prod_beta)
  qed
qed

lemma alternates_adjacent:
  "alternates opn es \<Longrightarrow> Suc i < length es \<Longrightarrow> es ! i \<noteq> es ! Suc i"
proof (induction es arbitrary: opn i)
  case Nil
  then show ?case by simp
next
  case (Cons e es)
  show ?case
  proof (cases i)
    case 0
    with Cons.prems show ?thesis by (cases es) auto
  next
    case (Suc j)
    with Cons.prems Cons.IH [of "\<not> opn" j] show ?thesis by simp
  qed
qed

lemma alternates_first:
  "alternates opn es \<Longrightarrow> es \<noteq> [] \<Longrightarrow> hd es = (if opn then ClosedEvent else OpenedEvent)"
  by (cases es) simp_all

lemma observe_same_level:
  "0 \<le> sensitivity g \<Longrightarrow> observe g (previousLightLevel g) now = ([], g)"
  by (simp add: observe_def Let_def)





subsection \<open>The step\<close>

text \<open>
  C1. The observe step is the algorithm of section 4 of the specification, steps 1 to 6:
  on every state, sample and clock value it plays exactly the event that \<open>observe_spec\<close>
  returns, or nothing when that returns none, and it leaves the detector state that
  \<open>observe_spec\<close> leaves. The other variables of the script are untouched, and a call
  plays at most one sound.
\<close>

theorem observe_implements_algorithm:
  "fst (observe g sample now) = events_of (fst (observe_spec (detector_of g) sample now)) \<and>
   detector_of (snd (observe g sample now)) = snd (observe_spec (detector_of g) sample now) \<and>
   isActive (snd (observe g sample now)) = isActive g \<and>
   videoWidth (snd (observe g sample now)) = videoWidth g \<and>
   lightLevelDisplay (snd (observe g sample now)) = lightLevelDisplay g \<and>
   length (fst (observe g sample now)) \<le> 1"
  by (simp add: observe_def observe_spec_def detector_of_def events_of_def
      triggerCooldown_def cooldownDuration_def Let_def)

text \<open>
  C2. Inside the cooldown window, that is when \<open>now - lastTriggerTime\<close> is below
  \<open>triggerCooldown\<close> (2000 ms), the step plays no sound and changes no variable, in
  particular not \<open>isChestOpen\<close>, whatever the sample is.
\<close>

theorem cooldown_lockout:
  "now - lastTriggerTime g < triggerCooldown \<Longrightarrow>
     triggerCooldown = 2000 \<and> observe g sample now = ([], g) \<and>
     isChestOpen (snd (observe g sample now)) = isChestOpen g"
  by (simp add: observe_def triggerCooldown_def)

theorem cooldown_lockout_witness:
  "(1999::int) - lastTriggerTime initial_globals < triggerCooldown \<and>
   observe initial_globals 255 1999 = ([], initial_globals)"
  using cooldown_lockout [of 1999 initial_globals 255]
  by (simp add: initial_globals_def triggerCooldown_def)




text \<open>
  C4. With the cooldown elapsed, a jump of more than \<open>sensitivity\<close> while the chest is
  closed plays exactly one opening sound and sets \<open>isChestOpen\<close>; a drop of more than
  \<open>sensitivity\<close> while the chest is open plays exactly one closing sound and clears it.
\<close>

theorem single_jump:
  "(now - lastTriggerTime g \<ge> triggerCooldown \<and> \<not> isChestOpen g \<and>
      sample - previousLightLevel g > sensitivity g \<longrightarrow>
      fst (observe g sample now) = [OpenedEvent] \<and> isChestOpen (snd (observe g sample now))) \<and>
   (now' - lastTriggerTime g' \<ge> triggerCooldown \<and> isChestOpen g' \<and>
      sample' - previousLightLevel g' < - sensitivity g' \<longrightarrow>
      fst (observe g' sample' now') = [ClosedEvent] \<and>
      \<not> isChestOpen (snd (observe g' sample' now')))"
  by (simp add: observe_def triggerCooldown_def Let_def)

theorem single_jump_witness:
  "(5000::int) - lastTriggerTime (initial_globals\<lparr>previousLightLevel := 50\<rparr>) \<ge> triggerCooldown \<and>
   \<not> isChestOpen (initial_globals\<lparr>previousLightLevel := 50\<rparr>) \<and>
   (70::int) - previousLightLevel (initial_globals\<lparr>previousLightLevel := 50\<rparr>)
      > sensitivity (initial_globals\<lparr>previousLightLevel := 50\<rparr>) \<and>
   fst (observe (initial_globals\<lparr>previousLightLevel := 50\<rparr>) 70 5000) = [OpenedEvent] \<and>
   isChestOpen (initial_globals\<lparr>previousLightLevel := 50, isChestOpen := True\<rparr>) \<and>
   (20::int) - previousLightLevel (initial_globals\<lparr>previousLightLevel := 50, isChestOpen := True\<rparr>)
      < - sensitivity (initial_globals\<lparr>previousLightLevel := 50, isChestOpen := True\<rparr>) \<and>
   fst (observe (initial_globals\<lparr>previousLightLevel := 50, isChestOpen := True\<rparr>) 20 5000)
      = [ClosedEvent]"
  using single_jump [of 5000 "initial_globals\<lparr>previousLightLevel := 50\<rparr>" 70
      5000 "initial_globals\<lparr>previousLightLevel := 50, isChestOpen := True\<rparr>" 20]
  by (simp add: initial_globals_def triggerCooldown_def)

text \<open>
  The claim C6 as it is worded, for every state, fails where \<open>sensitivity\<close> is negative:
  with \<open>sensitivity = -5\<close> and an open chest, an unchanged brightness is a difference of
  0, which is above \<open>sensitivity\<close> and also below \<open>-sensitivity\<close>, and the closing sound
  is played.
\<close>

theorem idempotence_counterexample:
  "(50::int) - previousLightLevel
      (initial_globals\<lparr>sensitivity := - 5, isChestOpen := True, previousLightLevel := 50\<rparr>)
     > sensitivity
      (initial_globals\<lparr>sensitivity := - 5, isChestOpen := True, previousLightLevel := 50\<rparr>) \<and>
   isChestOpen
      (initial_globals\<lparr>sensitivity := - 5, isChestOpen := True, previousLightLevel := 50\<rparr>) \<and>
   fst (observe
      (initial_globals\<lparr>sensitivity := - 5, isChestOpen := True, previousLightLevel := 50\<rparr>)
      50 5000) = [ClosedEvent] \<and>
   \<not> isChestOpen (snd (observe
      (initial_globals\<lparr>sensitivity := - 5, isChestOpen := True, previousLightLevel := 50\<rparr>)
      50 5000))"
  by (simp add: observe_def initial_globals_def triggerCooldown_def)

text \<open>
  C6, amended. When \<open>sensitivity\<close> is not negative, a sample whose difference would
  trigger the transition into the state the detector is already in (above \<open>sensitivity\<close>
  while open, or below \<open>-sensitivity\<close> while closed) plays no sound and leaves
  \<open>isChestOpen\<close> as it is, in every such state and at every clock value.
\<close>

theorem idempotent_in_target_state:
  "0 \<le> sensitivity g \<Longrightarrow>
   (sample - previousLightLevel g > sensitivity g \<and> isChestOpen g) \<or>
   (sample - previousLightLevel g < - sensitivity g \<and> \<not> isChestOpen g) \<Longrightarrow>
   fst (observe g sample now) = [] \<and>
   isChestOpen (snd (observe g sample now)) = isChestOpen g"
  by (auto simp add: observe_def triggerCooldown_def Let_def)

theorem idempotent_in_target_state_witness:
  "0 \<le> sensitivity (initial_globals\<lparr>previousLightLevel := 50, isChestOpen := True\<rparr>) \<and>
   (70::int) - previousLightLevel (initial_globals\<lparr>previousLightLevel := 50, isChestOpen := True\<rparr>)
      > sensitivity (initial_globals\<lparr>previousLightLevel := 50, isChestOpen := True\<rparr>) \<and>
   isChestOpen (initial_globals\<lparr>previousLightLevel := 50, isChestOpen := True\<rparr>) \<and>
   fst (observe (initial_globals\<lparr>previousLightLevel := 50, isChestOpen := True\<rparr>) 70 5000) = [] \<and>
   isChestOpen (snd (observe (initial_globals\<lparr>previousLightLevel := 50, isChestOpen := True\<rparr>) 70 5000))"
  using idempotent_in_target_state
    [of "initial_globals\<lparr>previousLightLevel := 50, isChestOpen := True\<rparr>" 70 5000]
  by (simp add: initial_globals_def)

text \<open>
  C7. The scenario of the specification: \<open>sensitivity = 10\<close>, a cooldown of 2000 ms,
  \<open>previousLightLevel = 50\<close>, the chest closed, and any \<open>lastTriggerTime\<close> for which the
  cooldown has elapsed at time 0. Sample 70 at time 0 plays the opening sound, sets
  \<open>isChestOpen\<close> and \<open>lastTriggerTime = 0\<close>; sample 20 at time 500 plays nothing and leaves
  \<open>previousLightLevel\<close> at 50; sample 20 at time 2100 plays the closing sound and clears
  \<open>isChestOpen\<close>.
\<close>

theorem scenario:
  "0 - l \<ge> triggerCooldown \<Longrightarrow>
   (let g0 = initial_globals\<lparr>previousLightLevel := 50, lastTriggerTime := l\<rparr>;
        (e1, g1) = observe g0 70 0;
        (e2, g2) = observe g1 20 500;
        (e3, g3) = observe g2 20 2100
    in sensitivity g0 = 10 \<and> triggerCooldown = 2000 \<and> \<not> isChestOpen g0 \<and>
       e1 = [OpenedEvent] \<and> isChestOpen g1 \<and> lastTriggerTime g1 = 0 \<and>
       e2 = [] \<and> previousLightLevel g2 = 50 \<and>
       e3 = [ClosedEvent] \<and> \<not> isChestOpen g3)"
  by (simp add: observe_def initial_globals_def triggerCooldown_def Let_def)

theorem scenario_witness:
  "(0::int) - (- 2000) \<ge> triggerCooldown \<and>
   observe_ticks (initial_globals\<lparr>previousLightLevel := 50, lastTriggerTime := - 2000\<rparr>)
     [(70, 0), (20, 500), (20, 2100)]
   = ([OpenedEvent, ClosedEvent],
      initial_globals\<lparr>previousLightLevel := 50, lastTriggerTime := 2100\<rparr>)"
  using scenario [of "- 2000"]
  by (simp add: observe_def initial_globals_def triggerCooldown_def Let_def)

text \<open>
  The claim C8 as it is worded fails: the comparisons are strict, so a difference whose
  absolute value equals \<open>sensitivity\<close> plays nothing. Here the brightness goes from 50 to
  60 with \<open>sensitivity = 10\<close>, the chest closed and the cooldown elapsed.
\<close>

theorem threshold_counterexample:
  "\<bar>(60::int) - previousLightLevel (initial_globals\<lparr>previousLightLevel := 50\<rparr>)\<bar>
     = sensitivity (initial_globals\<lparr>previousLightLevel := 50\<rparr>) \<and>
   \<not> isChestOpen (initial_globals\<lparr>previousLightLevel := 50\<rparr>) \<and>
   (5000::int) - lastTriggerTime (initial_globals\<lparr>previousLightLevel := 50\<rparr>) \<ge> triggerCooldown \<and>
   fst (observe (initial_globals\<lparr>previousLightLevel := 50\<rparr>) 60 5000) = []"
  by (simp add: observe_def initial_globals_def triggerCooldown_def)

text \<open>
  C8, amended. \<open>sensitivity\<close> is the largest absolute brightness difference that does
  not qualify: a difference whose absolute value equals \<open>sensitivity\<close> plays nothing and
  keeps \<open>isChestOpen\<close>; with the cooldown elapsed, a closed chest opens exactly when the
  difference is above \<open>sensitivity\<close>, and an open chest closes exactly when the difference
  is below \<open>-sensitivity\<close>.
\<close>

theorem threshold_is_strict:
  "(\<bar>sample - previousLightLevel g\<bar> = sensitivity g \<longrightarrow>
      fst (observe g sample now) = [] \<and>
      isChestOpen (snd (observe g sample now)) = isChestOpen g) \<and>
   (now' - lastTriggerTime g' \<ge> triggerCooldown \<and> \<not> isChestOpen g' \<longrightarrow>
      (fst (observe g' sample' now') = [OpenedEvent]) =
      (sample' - previousLightLevel g' > sensitivity g')) \<and>
   (now'' - lastTriggerTime g'' \<ge> triggerCooldown \<and> isChestOpen g'' \<longrightarrow>
      (fst (observe g'' sample'' now'') = [ClosedEvent]) =
      (sample'' - previousLightLevel g'' < - sensitivity g''))"
  by (auto simp add: observe_def triggerCooldown_def Let_def)

theorem threshold_is_strict_witness:
  "\<bar>(60::int) - previousLightLevel (initial_globals\<lparr>previousLightLevel := 50\<rparr>)\<bar>
     = sensitivity (initial_globals\<lparr>previousLightLevel := 50\<rparr>) \<and>
   fst (observe (initial_globals\<lparr>previousLightLevel := 50\<rparr>) 60 5000) = [] \<and>
   fst (observe (initial_globals\<lparr>previousLightLevel := 50\<rparr>) 61 5000) = [OpenedEvent] \<and>
   fst (observe (initial_globals\<lparr>previousLightLevel := 50, isChestOpen := True\<rparr>) 39 5000)
     = [ClosedEvent]"
  using threshold_is_strict [of 60 "initial_globals\<lparr>previousLightLevel := 50\<rparr>" 5000
      5000 "initial_globals\<lparr>previousLightLevel := 50\<rparr>" 61
      5000 "initial_globals\<lparr>previousLightLevel := 50, isChestOpen := True\<rparr>" 39]
  by (simp add: initial_globals_def triggerCooldown_def)



subsection \<open>Sequences of steps\<close>

text \<open>
  The claim C5 as it is worded, from any reachable starting state, fails. Five quiet
  ticks take the script's starting state to a baseline of 50 without a sound; from
  there the constant samples 70 play the opening sound on their first tick, since the
  difference is taken against the baseline, which is what the detector is for.
\<close>

theorem constant_samples_counterexample:
  "observe_ticks initial_globals [(10, 2000), (20, 2200), (30, 2400), (40, 2600), (50, 2800)]
     = ([], initial_globals\<lparr>previousLightLevel := 50\<rparr>) \<and>
   fst (observe_ticks (initial_globals\<lparr>previousLightLevel := 50\<rparr>)
          (map (Pair 70) [5000, 5200, 9000])) = [OpenedEvent]"
  by (simp add: observe_def initial_globals_def triggerCooldown_def)

text \<open>
  C5, amended. From a state whose \<open>previousLightLevel\<close> is already the constant value
  and whose \<open>sensitivity\<close> is not negative, observing any sequence of samples all equal
  to that value, at any clock values, plays no sound at any tick and changes no variable:
  the difference stays 0.
\<close>

theorem constant_samples_silent:
  "0 \<le> sensitivity g \<Longrightarrow>
   observe_ticks g (map (Pair (previousLightLevel g)) clock) = ([], g)"
  by (induction clock) (simp_all add: observe_same_level)

theorem constant_samples_silent_witness:
  "0 \<le> sensitivity (initial_globals\<lparr>previousLightLevel := 70\<rparr>) \<and>
   observe_ticks (initial_globals\<lparr>previousLightLevel := 70\<rparr>) (map (Pair 70) [5000, 5200, 9000])
     = ([], initial_globals\<lparr>previousLightLevel := 70\<rparr>)"
  using constant_samples_silent [of "initial_globals\<lparr>previousLightLevel := 70\<rparr>" "[5000, 5200, 9000]"]
  by (simp add: initial_globals_def)

text \<open>
  The condition on \<open>sensitivity\<close> is needed: a difference of 0 is above a negative
  \<open>sensitivity\<close>, so with \<open>sensitivity = -5\<close> constant samples at the baseline open
  and close the chest in turn, each time the cooldown has elapsed.
\<close>

lemma constant_samples_negative_sensitivity:
  "fst (observe_ticks (initial_globals\<lparr>sensitivity := - 5, previousLightLevel := 70\<rparr>)
          (map (Pair 70) [5000, 5200, 9000])) = [OpenedEvent, ClosedEvent]"
  by (simp add: observe_def initial_globals_def triggerCooldown_def)

text \<open>
  C10. Started with the chest closed, as the script starts, the events played over any
  sequence of ticks alternate: the first one, if there is one, is an opening, and no two
  consecutive events are of the same kind. In a single step an opening is played only
  when \<open>isChestOpen\<close> is false and a closing only when it is true.
\<close>

theorem events_alternate:
  "\<not> isChestOpen g \<Longrightarrow>
   (fst (observe_ticks g ticks) \<noteq> [] \<longrightarrow> hd (fst (observe_ticks g ticks)) = OpenedEvent) \<and>
   (\<forall>i. Suc i < length (fst (observe_ticks g ticks)) \<longrightarrow>
        fst (observe_ticks g ticks) ! i \<noteq> fst (observe_ticks g ticks) ! Suc i) \<and>
   (OpenedEvent \<in> set (fst (observe g' sample now)) \<longrightarrow> \<not> isChestOpen g') \<and>
   (ClosedEvent \<in> set (fst (observe g' sample now)) \<longrightarrow> isChestOpen g')"
proof (intro conjI allI impI)
  assume closed: "\<not> isChestOpen g"
  have alt: "alternates False (fst (observe_ticks g ticks))"
    using observe_ticks_alternates [of g ticks] closed by simp
  show "hd (fst (observe_ticks g ticks)) = OpenedEvent" if "fst (observe_ticks g ticks) \<noteq> []"
    using alternates_first [OF alt that] by simp
  show "fst (observe_ticks g ticks) ! i \<noteq> fst (observe_ticks g ticks) ! Suc i"
    if "Suc i < length (fst (observe_ticks g ticks))" for i
    using alternates_adjacent [OF alt that] .
next
  assume "OpenedEvent \<in> set (fst (observe g' sample now))"
  with observe_cases [of g' sample now] show "\<not> isChestOpen g'"
    by (auto split: if_splits)
next
  assume "ClosedEvent \<in> set (fst (observe g' sample now))"
  with observe_cases [of g' sample now] show "isChestOpen g'"
    by (auto split: if_splits)
qed

theorem events_alternate_witness:
  "\<not> isChestOpen (initial_globals\<lparr>previousLightLevel := 50\<rparr>) \<and>
   fst (observe_ticks (initial_globals\<lparr>previousLightLevel := 50\<rparr>)
          [(70, 5000), (20, 5500), (20, 7100), (90, 9200)])
     = [OpenedEvent, ClosedEvent, OpenedEvent] \<and>
   hd (fst (observe_ticks (initial_globals\<lparr>previousLightLevel := 50\<rparr>)
          [(70, 5000), (20, 5500), (20, 7100), (90, 9200)]))
     = OpenedEvent \<and>
   OpenedEvent \<in> set (fst (observe (initial_globals\<lparr>previousLightLevel := 50\<rparr>) 70 5000))"
  using events_alternate [of "initial_globals\<lparr>previousLightLevel := 50\<rparr>"
      "[(70, 5000), (20, 5500), (20, 7100), (90, 9200)]"
      "initial_globals\<lparr>previousLightLevel := 50\<rparr>" 70 5000]
  by (simp add: observe_def initial_globals_def triggerCooldown_def)

end
